theory Spec2Isabelle
  imports Main "HOL-Library.Word"
begin

section \<open>JavaScript values\<close>

text \<open>
  A JavaScript string is a sequence of UTF-16 code units. \<open>lit\<close> embeds an ASCII
  literal of the source.
\<close>

type_synonym jstr = "16 word list"

definition lit :: "string \<Rightarrow> jstr" where
  "lit s = map (\<lambda>c. of_nat (of_char c)) s"

text \<open>
  The values the handlers receive are plain data: what \<open>JSON.parse\<close> or a structured
  clone delivers, and \<open>undefined\<close>. An object is the list of its own properties in
  the order \<open>Object.entries\<close> enumerates them. A number is kept as the text that the
  number-to-string conversion of the language gives for it (\<open>1.5\<close> is
  \<open>JNum (lit ''1.5'')\<close>, both zeros are \<open>JNum (lit ''0'')\<close>): the code only
  converts numbers to strings and tests them for truthiness, and both are functions of
  that text.
\<close>

datatype jsval =
    JUndefined
  | JNull
  | JBool bool
  | JNum jstr
  | JStr jstr
  | JArr "jsval list"
  | JObj "(jstr \<times> jsval) list"

text \<open>
  What a conversion or a destructuring raises is a \<open>TypeError\<close>; its message is never
  read. What \<open>fetch\<close> or reading a response rejects with is an instance of \<open>Error\<close>
  or of a subclass, given by its message, or some value that is no \<open>Error\<close>.
\<close>

datatype js_error = TypeError

datatype thrown = Error jstr | NonError

fun truthy :: "jsval \<Rightarrow> bool" where
  "truthy JUndefined = False"
| "truthy JNull = False"
| "truthy (JBool b) = b"
| "truthy (JNum r) = (r \<noteq> lit ''0'' \<and> r \<noteq> lit ''NaN'')"
| "truthy (JStr s) = (s \<noteq> [])"
| "truthy (JArr xs) = True"
| "truthy (JObj fs) = True"

fun js_typeof :: "jsval \<Rightarrow> string" where
  "js_typeof JUndefined = ''undefined''"
| "js_typeof JNull = ''object''"
| "js_typeof (JBool b) = ''boolean''"
| "js_typeof (JNum r) = ''number''"
| "js_typeof (JStr s) = ''string''"
| "js_typeof (JArr xs) = ''object''"
| "js_typeof (JObj fs) = ''object''"

text \<open>
  \<open>js_get v k\<close> is \<open>v?.k\<close>, and \<open>v.k\<close> where \<open>v\<close> is neither \<open>null\<close> nor
  \<open>undefined\<close>; \<open>js_in k v\<close> is \<open>k in v\<close> for an object \<open>v\<close>. The keys the code
  reads (\<open>error\<close>, \<open>message\<close>, \<open>details\<close>, \<open>quizId\<close>, \<open>answer\<close>, \<open>form\<close>,
  \<open>id\<close>, \<open>q1\<close> ...) are no array index and no property of a prototype, so only own
  properties of objects answer.
\<close>

fun js_get :: "jsval \<Rightarrow> jstr \<Rightarrow> jsval" where
  "js_get (JObj fs) k = (case map_of fs k of None \<Rightarrow> JUndefined | Some v \<Rightarrow> v)"
| "js_get v k = JUndefined"

fun js_in :: "jstr \<Rightarrow> jsval \<Rightarrow> bool" where
  "js_in k (JObj fs) = (case map_of fs k of None \<Rightarrow> False | Some v \<Rightarrow> True)"
| "js_in k v = False"

fun str_val :: "jsval \<Rightarrow> jstr" where
  "str_val (JStr s) = s"
| "str_val v = []"

text \<open>\<open>a ?? b\<close>\<close>

fun nullish :: "jsval \<Rightarrow> jsval \<Rightarrow> jsval" where
  "nullish JUndefined b = b"
| "nullish JNull b = b"
| "nullish a b = a"

section \<open>extractErrorDetail\<close>

definition nested_detail :: "jsval \<Rightarrow> jstr option" where
  "nested_detail details =
    (if truthy details \<and> js_typeof details = ''object'' \<and> js_in (lit ''error'') details then
       (let nestedError = js_get details (lit ''error'') in
        if js_typeof nestedError = ''string'' then Some (str_val nestedError)
        else if truthy nestedError \<and> js_typeof nestedError = ''object''
                \<and> js_in (lit ''message'') nestedError
                \<and> js_typeof (js_get nestedError (lit ''message'')) = ''string''
        then Some (str_val (js_get nestedError (lit ''message'')))
        else None)
     else None)"

definition extractErrorDetail :: "jsval \<Rightarrow> jstr \<Rightarrow> jstr" where
  "extractErrorDetail payload fallback =
    (if \<not> truthy payload then fallback
     else
       let error = js_get payload (lit ''error'') in
       if js_typeof error = ''string'' then str_val error
       else if truthy error \<and> js_typeof error = ''object'' \<and> js_in (lit ''message'') error
               \<and> js_typeof (js_get error (lit ''message'')) = ''string''
       then str_val (js_get error (lit ''message''))
       else
         let details = js_get payload (lit ''details'') in
         if js_typeof details = ''string'' then str_val details
         else
           (case nested_detail details of
              Some s \<Rightarrow> s
            | None \<Rightarrow>
                if js_typeof (js_get payload (lit ''message'')) = ''string''
                then str_val (js_get payload (lit ''message''))
                else fallback))"

text \<open>
  The precedence order as the specification words it: an ordered list of paths into the
  payload, the first one that leads to a string wins.
\<close>

fun field_at :: "jsval \<Rightarrow> jstr list \<Rightarrow> jsval" where
  "field_at v [] = v"
| "field_at v (k # ks) = field_at (js_get v k) ks"

fun first_string :: "jsval list \<Rightarrow> jstr \<Rightarrow> jstr" where
  "first_string [] fallback = fallback"
| "first_string (JStr s # vs) fallback = s"
| "first_string (v # vs) fallback = first_string vs fallback"

definition precedence :: "string list list" where
  "precedence =
     [[''error''], [''error'', ''message''], [''details''], [''details'', ''error''],
      [''details'', ''error'', ''message''], [''message'']]"

definition spec_error_message :: "jsval \<Rightarrow> jstr \<Rightarrow> jstr" where
  "spec_error_message payload fallback =
     first_string (map (\<lambda>p. field_at payload (map lit p)) precedence) fallback"

section \<open>Strings\<close>

definition startsWith :: "jstr \<Rightarrow> jstr \<Rightarrow> bool" where
  "startsWith s p = (take (length p) s = p)"

text \<open>The class \<open>\s\<close> of a regular expression, which is also what \<open>trim\<close> removes.\<close>

definition is_space :: "16 word \<Rightarrow> bool" where
  "is_space c =
     (c = 0x09 \<or> c = 0x0A \<or> c = 0x0B \<or> c = 0x0C \<or> c = 0x0D \<or> c = 0x20 \<or> c = 0xA0
      \<or> c = 0x1680 \<or> (0x2000 \<le> c \<and> c \<le> 0x200A) \<or> c = 0x2028 \<or> c = 0x2029
      \<or> c = 0x202F \<or> c = 0x205F \<or> c = 0x3000 \<or> c = 0xFEFF)"

text \<open>The class \<open>\w\<close>: \<open>[A-Za-z0-9_]\<close>.\<close>

definition is_word :: "16 word \<Rightarrow> bool" where
  "is_word c =
     ((0x41 \<le> c \<and> c \<le> 0x5A) \<or> (0x61 \<le> c \<and> c \<le> 0x7A) \<or> (0x30 \<le> c \<and> c \<le> 0x39)
      \<or> c = 0x5F)"

text \<open>\<open>c.toUpperCase()\<close> for a single unit \<open>c\<close> of the class \<open>\w\<close>.\<close>

definition toUpperCase :: "16 word \<Rightarrow> 16 word" where
  "toUpperCase c = (if 0x61 \<le> c \<and> c \<le> 0x7A then c - 0x20 else c)"

text \<open>\<open>xs.join(sep)\<close> for an array of strings.\<close>

fun join :: "jstr \<Rightarrow> jstr list \<Rightarrow> jstr" where
  "join sep [] = []"
| "join sep [x] = x"
| "join sep (x # y # ys) = x @ sep @ join sep (y # ys)"

text \<open>
  \<open>String(v)\<close>, which is also the conversion a template literal applies. A plain object
  gives \<open>[object Object]\<close> through the inherited \<open>toString\<close>; an own property named
  \<open>toString\<close> shadows it, no data value is callable, and the conversion raises. An
  array joins the conversions of its elements with a comma, \<open>null\<close> and \<open>undefined\<close>
  giving the empty string.
\<close>

fun sequence :: "(js_error + 'a) list \<Rightarrow> js_error + 'a list" where
  "sequence [] = Inr []"
| "sequence (r # rs) =
     (case r of
        Inl e \<Rightarrow> Inl e
      | Inr x \<Rightarrow> (case sequence rs of Inl e \<Rightarrow> Inl e | Inr xs \<Rightarrow> Inr (x # xs)))"

fun js_String :: "jsval \<Rightarrow> js_error + jstr" where
  "js_String JUndefined = Inr (lit ''undefined'')"
| "js_String JNull = Inr (lit ''null'')"
| "js_String (JBool b) = Inr (if b then lit ''true'' else lit ''false'')"
| "js_String (JNum r) = Inr r"
| "js_String (JStr s) = Inr s"
| "js_String (JArr xs) =
     (case sequence (map (\<lambda>x. if x = JUndefined \<or> x = JNull then Inr [] else js_String x) xs) of
        Inl e \<Rightarrow> Inl e
      | Inr ss \<Rightarrow> Inr (join (lit '','') ss))"
| "js_String (JObj fs) =
     (if js_in (lit ''toString'') (JObj fs) then Inl TypeError else Inr (lit ''[object Object]''))"

section \<open>The quiz and survey endpoints\<close>

record http_reply =
  status :: nat
  json :: jsval

text \<open>
  \<open>const { quizId, answer } = v\<close> raises on \<open>null\<close> and \<open>undefined\<close>, and reads
  the properties of any other value.
\<close>

definition destructurable :: "jsval \<Rightarrow> bool" where
  "destructurable v = (v \<noteq> JNull \<and> v \<noteq> JUndefined)"

text \<open>
  The argument is what \<open>req.json()\<close> settles with: the parsed body, or a rejection when
  the body is no JSON text. The first function is the \<open>try\<close> block, the second the handler.
\<close>

definition quiz_POST_try :: "thrown + jsval \<Rightarrow> js_error + http_reply" where
  "quiz_POST_try parsed =
    (let b = (case parsed of Inl e \<Rightarrow> JObj [] | Inr v \<Rightarrow> v) in
     if \<not> destructurable b then Inl TypeError
     else
       let quizId = js_get b (lit ''quizId''); answer = js_get b (lit ''answer'') in
       if \<not> truthy quizId \<or> \<not> truthy answer
       then Inr \<lparr>status = 400, json = JObj [(lit ''error'', JStr (lit ''Missing quizId or answer''))]\<rparr>
       else Inr \<lparr>status = 200, json = JObj [(lit ''ok'', JBool True)]\<rparr>)"

definition quiz_POST :: "thrown + jsval \<Rightarrow> js_error + http_reply" where
  "quiz_POST parsed =
    (case quiz_POST_try parsed of
       Inl e \<Rightarrow> Inr \<lparr>status = 500, json = JObj [(lit ''error'', JStr (lit ''Internal error''))]\<rparr>
     | Inr r \<Rightarrow> Inr r)"

definition survey_POST_try :: "thrown + jsval \<Rightarrow> js_error + http_reply" where
  "survey_POST_try parsed =
    (let body = (case parsed of Inl e \<Rightarrow> JObj [] | Inr v \<Rightarrow> v);
         b = (if truthy body then body else JObj []) in
     if \<not> destructurable b then Inl TypeError
     else
       let q1 = js_get b (lit ''q1''); q2 = js_get b (lit ''q2''); q3 = js_get b (lit ''q3'') in
       if \<not> truthy q1 \<or> \<not> truthy q2 \<or> \<not> truthy q3
       then Inr \<lparr>status = 400, json = JObj [(lit ''error'', JStr (lit ''Missing required fields''))]\<rparr>
       else Inr \<lparr>status = 200, json = JObj [(lit ''ok'', JBool True)]\<rparr>)"

definition survey_POST :: "thrown + jsval \<Rightarrow> js_error + http_reply" where
  "survey_POST parsed =
    (case survey_POST_try parsed of
       Inl e \<Rightarrow> Inr \<lparr>status = 500, json = JObj [(lit ''error'', JStr (lit ''Internal error''))]\<rparr>
     | Inr r \<Rightarrow> Inr r)"

section \<open>The panel controller: state\<close>

record ErrorState =
  script :: "jstr option"
  session :: "jstr option"
  integration :: "jstr option"
  retryable :: bool

datatype script_status = Pending | Ready | Failed

text \<open>
  The state of one \<open>ChatKitPanel\<close>: the two refs (\<open>processedFacts\<close>, \<open>isMountedRef\<close>)
  and the four state cells.
\<close>

record panel =
  processedFacts :: "jstr set"
  errors :: ErrorState
  isInitializingSession :: bool
  isMounted :: bool
  scriptStatus :: script_status
  widgetInstanceKey :: nat

definition createInitialErrors :: ErrorState where
  "createInitialErrors = \<lparr>script = None, session = None, integration = None, retryable = False\<rparr>"

text \<open>
  The state at mount; \<open>registered\<close> says whether the custom element \<open>openai-chatkit\<close> is
  already defined in the browser.
\<close>

definition initial_panel :: "bool \<Rightarrow> panel" where
  "initial_panel registered =
     \<lparr>processedFacts = {}, errors = createInitialErrors, isInitializingSession = True,
      isMounted = True, scriptStatus = (if registered then Ready else Pending),
      widgetInstanceKey = 0\<rparr>"

text \<open>
  \<open>setErrorState(updates)\<close> spreads a partial error state over the current one: the
  updates are the fields that the object literal of the call names.
\<close>

datatype update = SetScript "jstr option" | SetSession "jstr option"
  | SetIntegration "jstr option" | SetRetryable bool

fun assign :: "update \<Rightarrow> ErrorState \<Rightarrow> ErrorState" where
  "assign (SetScript v) e = e\<lparr>script := v\<rparr>"
| "assign (SetSession v) e = e\<lparr>session := v\<rparr>"
| "assign (SetIntegration v) e = e\<lparr>integration := v\<rparr>"
| "assign (SetRetryable b) e = e\<lparr>retryable := b\<rparr>"

definition setErrorState :: "update list \<Rightarrow> panel \<Rightarrow> panel" where
  "setErrorState updates s = s\<lparr>errors := fold assign updates (errors s)\<rparr>"

section \<open>Script readiness, configuration check, restart\<close>

definition handleLoaded :: "panel \<Rightarrow> panel" where
  "handleLoaded s =
     (if \<not> isMounted s then s
      else setErrorState [SetScript None] (s\<lparr>scriptStatus := Ready\<rparr>))"

text \<open>
  \<open>handleError\<close> receives the \<open>detail\<close> of the event. The template literal converts it
  after the status is set; when the conversion raises, nothing after it runs.
\<close>

definition handleError :: "jsval \<Rightarrow> panel \<Rightarrow> panel" where
  "handleError event_detail s =
     (if \<not> isMounted s then s
      else
        let s1 = s\<lparr>scriptStatus := Failed\<rparr>;
            detail = nullish event_detail (JStr (lit ''unknown error'')) in
        case js_String detail of
          Inl e \<Rightarrow> s1
        | Inr d \<Rightarrow>
            (setErrorState [SetScript (Some (lit ''Error: '' @ d)), SetRetryable False] s1)
              \<lparr>isInitializingSession := False\<rparr>)"

definition unavailable_detail :: jsval where
  "unavailable_detail =
     JStr (lit ''ChatKit web component is unavailable. Verify that the script URL is reachable.'')"

text \<open>
  \<open>WORKFLOW_ID\<close> and \<open>CREATE_SESSION_ENDPOINT\<close> are constants of a configuration module
  and arguments here; an unset identifier is the empty string.
\<close>

definition isWorkflowConfigured :: "jstr \<Rightarrow> bool" where
  "isWorkflowConfigured WORKFLOW_ID =
     (WORKFLOW_ID \<noteq> [] \<and> \<not> startsWith WORKFLOW_ID (lit ''wf_replace''))"

definition config_detail :: jstr where
  "config_detail = lit ''Set NEXT_PUBLIC_CHATKIT_WORKFLOW_ID in your .env.local file.''"

definition workflowEffect :: "jstr \<Rightarrow> panel \<Rightarrow> panel" where
  "workflowEffect WORKFLOW_ID s =
     (if \<not> isWorkflowConfigured WORKFLOW_ID \<and> isMounted s
      then (setErrorState [SetSession (Some config_detail), SetRetryable False] s)
             \<lparr>isInitializingSession := False\<rparr>
      else s)"

text \<open>
  \<open>handleResetChat\<close> runs in the browser; \<open>registered\<close> is again whether the custom
  element is defined.
\<close>

definition handleResetChat :: "bool \<Rightarrow> panel \<Rightarrow> panel" where
  "handleResetChat registered s =
     s\<lparr>processedFacts := {},
       scriptStatus := (if registered then Ready else Pending),
       isInitializingSession := True,
       errors := createInitialErrors,
       widgetInstanceKey := widgetInstanceKey s + 1\<rparr>"

section \<open>getClientSecret\<close>

record request =
  url :: jstr
  body :: jsval

text \<open>
  A response: its status and status text, and what \<open>response.text()\<close> settles with.
  \<open>fetch\<close> rejects or resolves with a response.
\<close>

record response =
  resp_status :: nat
  statusText :: jstr
  resp_text :: "thrown + jstr"

datatype fetch_outcome = Rejects thrown | Responds response

definition ok :: "response \<Rightarrow> bool" where
  "ok r = (200 \<le> resp_status r \<and> resp_status r \<le> 299)"

definition session_request :: "jstr \<Rightarrow> jstr \<Rightarrow> request" where
  "session_request CREATE_SESSION_ENDPOINT WORKFLOW_ID =
     \<lparr>url = CREATE_SESSION_ENDPOINT,
      body = JObj [(lit ''workflow'', JObj [(lit ''id'', JStr WORKFLOW_ID)]),
                   (lit ''chatkit_configuration'',
                    JObj [(lit ''file_upload'', JObj [(lit ''enabled'', JBool True)])])]\<rparr>"

text \<open>
  The part before the request: the configuration check, which throws, and the reset of
  the slots.
\<close>

definition getClientSecret_enter :: "jstr \<Rightarrow> jsval \<Rightarrow> panel \<Rightarrow> thrown option \<times> panel" where
  "getClientSecret_enter WORKFLOW_ID currentSecret s =
     (if \<not> isWorkflowConfigured WORKFLOW_ID then
        (Some (Error config_detail),
         if isMounted s
         then (setErrorState [SetSession (Some config_detail), SetRetryable False] s)
                \<lparr>isInitializingSession := False\<rparr>
         else s)
      else
        (None,
         if isMounted s
         then setErrorState [SetSession None, SetIntegration None, SetRetryable False]
                (if \<not> truthy currentSecret then s\<lparr>isInitializingSession := True\<rparr> else s)
         else s))"

text \<open>
  The \<open>try\<close> block once \<open>fetch\<close> has settled. \<open>JSON_parse raw\<close> is \<open>None\<close> where
  \<open>JSON.parse\<close> raises.
\<close>

definition response_data :: "(jstr \<Rightarrow> jsval option) \<Rightarrow> jstr \<Rightarrow> jsval" where
  "response_data JSON_parse raw =
     (if raw \<noteq> [] then (case JSON_parse raw of Some v \<Rightarrow> v | None \<Rightarrow> JObj []) else JObj [])"

definition getClientSecret_try ::
    "(jstr \<Rightarrow> jsval option) \<Rightarrow> fetch_outcome \<Rightarrow> panel \<Rightarrow> (thrown + jsval) \<times> panel" where
  "getClientSecret_try JSON_parse outcome s =
     (case outcome of
        Rejects e \<Rightarrow> (Inl e, s)
      | Responds r \<Rightarrow>
          (case resp_text r of
             Inl e \<Rightarrow> (Inl e, s)
           | Inr raw \<Rightarrow>
               let data = response_data JSON_parse raw in
               if \<not> ok r then (Inl (Error (extractErrorDetail data (statusText r))), s)
               else
                 let clientSecret = js_get data (lit ''client_secret'') in
                 if \<not> truthy clientSecret
                 then (Inl (Error (lit ''Missing client secret in response'')), s)
                 else (Inr clientSecret,
                       if isMounted s
                       then setErrorState [SetSession None, SetIntegration None] s
                       else s)))"

definition getClientSecret_catch :: "thrown \<Rightarrow> panel \<Rightarrow> (thrown + jsval) \<times> panel" where
  "getClientSecret_catch e s =
     (let detail = (case e of Error m \<Rightarrow> m | NonError \<Rightarrow> lit ''Unable to start ChatKit session.'') in
      (Inl (case e of Error m \<Rightarrow> e | NonError \<Rightarrow> Error detail),
       if isMounted s then setErrorState [SetSession (Some detail), SetRetryable False] s else s))"

definition getClientSecret_finally :: "jsval \<Rightarrow> panel \<Rightarrow> panel" where
  "getClientSecret_finally currentSecret s =
     (if isMounted s \<and> \<not> truthy currentSecret then s\<lparr>isInitializingSession := False\<rparr> else s)"

definition getClientSecret_settle ::
    "(jstr \<Rightarrow> jsval option) \<Rightarrow> jsval \<Rightarrow> fetch_outcome \<Rightarrow> panel \<Rightarrow> (thrown + jsval) \<times> panel" where
  "getClientSecret_settle JSON_parse currentSecret outcome s =
     (let (r1, s1) = getClientSecret_try JSON_parse outcome s;
          (r2, s2) = (case r1 of Inl e \<Rightarrow> getClientSecret_catch e s1 | Inr v \<Rightarrow> (Inr v, s1))
      in (r2, getClientSecret_finally currentSecret s2))"

text \<open>
  The whole call: the result, the state after it and the requests it has made.
\<close>

definition getClientSecret ::
    "jstr \<Rightarrow> jstr \<Rightarrow> (jstr \<Rightarrow> jsval option) \<Rightarrow> (request \<Rightarrow> fetch_outcome) \<Rightarrow> jsval \<Rightarrow> panel
       \<Rightarrow> (thrown + jsval) \<times> panel \<times> request list" where
  "getClientSecret CREATE_SESSION_ENDPOINT WORKFLOW_ID JSON_parse fetch currentSecret s =
     (case getClientSecret_enter WORKFLOW_ID currentSecret s of
        (Some e, s1) \<Rightarrow> (Inl e, s1, [])
      | (None, s1) \<Rightarrow>
          let req = session_request CREATE_SESSION_ENDPOINT WORKFLOW_ID;
              (r, s2) = getClientSecret_settle JSON_parse currentSecret (fetch req) s1
          in (r, s2, [req]))"

text \<open>Environments for concrete runs: a network that is down, an endpoint with one answer,
  a body with one reading.\<close>

definition offline :: "request \<Rightarrow> fetch_outcome" where
  "offline req = Rejects (Error (lit ''Failed to fetch''))"

definition answering :: "response \<Rightarrow> request \<Rightarrow> fetch_outcome" where
  "answering r req = Responds r"

definition reading :: "jsval \<Rightarrow> jstr \<Rightarrow> jsval option" where
  "reading v raw = Some v"

text \<open>Two response bodies: \<open>{"client_secret":""}\<close> and \<open>{"client_secret":"cs_1"}\<close>.\<close>

definition empty_secret_raw :: jstr where
  "empty_secret_raw = lit ''{'' @ [0x22] @ lit ''client_secret'' @ [0x22] @ lit '':'' @ [0x22, 0x22] @ lit ''}''"

definition secret_raw :: jstr where
  "secret_raw =
     lit ''{'' @ [0x22] @ lit ''client_secret'' @ [0x22] @ lit '':'' @ [0x22] @ lit ''cs_1'' @ [0x22] @ lit ''}''"

section \<open>Client tools and lifecycle callbacks\<close>

record FactAction =
  factId :: jstr
  factText :: jstr

text \<open>The calls the panel makes on the callbacks it was given as props.\<close>

datatype callback = ThemeRequest jstr | WidgetAction FactAction | ResponseEnd

text \<open>
  \<open>text.replace(/\s+/g, " ")\<close>: every maximal run of white space becomes one space. The
  flag says whether the unit before was white space.
\<close>

fun collapse :: "bool \<Rightarrow> jstr \<Rightarrow> jstr" where
  "collapse prev [] = []"
| "collapse prev (c # cs) =
     (if is_space c then (if prev then collapse True cs else 0x20 # collapse True cs)
      else c # collapse False cs)"

definition trimStart :: "jstr \<Rightarrow> jstr" where
  "trimStart s = dropWhile is_space s"

definition trimEnd :: "jstr \<Rightarrow> jstr" where
  "trimEnd s = rev (dropWhile is_space (rev s))"

definition trim :: "jstr \<Rightarrow> jstr" where
  "trim s = trimEnd (trimStart s)"

definition normalize_text :: "jstr \<Rightarrow> jstr" where
  "normalize_text t = trim (collapse False t)"

text \<open>
  The normal form as the specification words it, white space collapsed and trimmed: the
  maximal runs of units that are no white space, with one space between two of them.
  \<open>words_from cur s\<close> splits \<open>s\<close>, with \<open>cur\<close> the run read so far.
\<close>

fun words_from :: "jstr \<Rightarrow> jstr \<Rightarrow> jstr list" where
  "words_from cur [] = (if cur = [] then [] else [cur])"
| "words_from cur (c # cs) =
     (if is_space c then (if cur = [] then words_from [] cs else cur # words_from [] cs)
      else words_from (cur @ [c]) cs)"

definition spec_normalized :: "jstr \<Rightarrow> jstr" where
  "spec_normalized t = join [0x20] (words_from [] t)"

text \<open>
  \<open>onClientTool\<close>: the result (\<open>success\<close>, or what was raised), the state after the call
  and the callbacks invoked. \<open>params\<close> is the record of the invocation.
\<close>

definition onClientTool ::
    "jstr \<Rightarrow> (jstr \<times> jsval) list \<Rightarrow> panel \<Rightarrow> (js_error + bool) \<times> panel \<times> callback list" where
  "onClientTool name params s =
     (if name = lit ''switch_theme'' then
        (let requested = js_get (JObj params) (lit ''theme'') in
         if requested = JStr (lit ''light'') \<or> requested = JStr (lit ''dark'')
         then (Inr True, s, [ThemeRequest (str_val requested)])
         else (Inr False, s, []))
      else if name = lit ''record_fact'' then
        (case js_String (nullish (js_get (JObj params) (lit ''fact_id'')) (JStr [])) of
           Inl e \<Rightarrow> (Inl e, s, [])
         | Inr fid \<Rightarrow>
             (case js_String (nullish (js_get (JObj params) (lit ''fact_text'')) (JStr [])) of
                Inl e \<Rightarrow> (Inl e, s, [])
              | Inr ftext \<Rightarrow>
                  if fid = [] \<or> fid \<in> processedFacts s then (Inr True, s, [])
                  else (Inr True,
                        s\<lparr>processedFacts := insert fid (processedFacts s)\<rparr>,
                        [WidgetAction \<lparr>factId = fid, factText = normalize_text ftext\<rparr>])))
      else (Inr False, s, []))"

definition onResponseStart :: "panel \<Rightarrow> panel" where
  "onResponseStart s = setErrorState [SetIntegration None, SetRetryable False] s"

definition onThreadChange :: "panel \<Rightarrow> panel" where
  "onThreadChange s = s\<lparr>processedFacts := {}\<rparr>"

definition unmount :: "panel \<Rightarrow> panel" where
  "unmount s = s\<lparr>isMounted := False\<rparr>"

section \<open>What the overlay is given\<close>

definition activeError :: "panel \<Rightarrow> jstr option" where
  "activeError s = (case session (errors s) of Some m \<Rightarrow> Some m | None \<Rightarrow> integration (errors s))"

definition blockingError :: "panel \<Rightarrow> jstr option" where
  "blockingError s = (case script (errors s) of Some m \<Rightarrow> Some m | None \<Rightarrow> activeError s)"

text \<open>
  \<open>onRetry\<close> is \<open>handleResetChat\<close> or \<open>null\<close>; a string is truthy when it is not empty.
\<close>

definition onRetry_given :: "panel \<Rightarrow> bool" where
  "onRetry_given s =
     ((case blockingError s of Some m \<Rightarrow> m \<noteq> [] | None \<Rightarrow> False) \<and> retryable (errors s))"

section \<open>The panel as a transition system\<close>

text \<open>
  Everything that can happen to a mounted panel, one event at a time. A call of
  \<open>getClientSecret\<close> is two events, since other callbacks may run while the request is
  in flight.
\<close>

datatype event =
    ScriptLoaded
  | ScriptError jsval
  | WorkflowEffect
  | ManualRestart bool
  | SecretRequested jsval
  | SecretSettled jsval fetch_outcome
  | ClientTool jstr "(jstr \<times> jsval) list"
  | ResponseStart
  | ThreadChange
  | Unmount

fun step :: "jstr \<Rightarrow> (jstr \<Rightarrow> jsval option) \<Rightarrow> panel \<Rightarrow> event \<Rightarrow> panel" where
  "step wfid parse s ScriptLoaded = handleLoaded s"
| "step wfid parse s (ScriptError d) = handleError d s"
| "step wfid parse s WorkflowEffect = workflowEffect wfid s"
| "step wfid parse s (ManualRestart registered) = handleResetChat registered s"
| "step wfid parse s (SecretRequested cur) = snd (getClientSecret_enter wfid cur s)"
| "step wfid parse s (SecretSettled cur outcome) = snd (getClientSecret_settle parse cur outcome s)"
| "step wfid parse s (ClientTool name params) = fst (snd (onClientTool name params s))"
| "step wfid parse s ResponseStart = onResponseStart s"
| "step wfid parse s ThreadChange = onThreadChange s"
| "step wfid parse s Unmount = unmount s"

definition run :: "jstr \<Rightarrow> (jstr \<Rightarrow> jsval option) \<Rightarrow> bool \<Rightarrow> event list \<Rightarrow> panel" where
  "run wfid parse registered evs = foldl (step wfid parse) (initial_panel registered) evs"

text \<open>
  The states the component goes through. The effect that checks the workflow identifier
  runs at mount. \<open>handleResetChat\<close> is reached through \<open>onRetry\<close> only, and a
  request settles only when one was made, which needs a configured workflow.
\<close>

fun enabled :: "jstr \<Rightarrow> panel \<Rightarrow> event \<Rightarrow> bool" where
  "enabled wfid s (ManualRestart registered) = onRetry_given s"
| "enabled wfid s (SecretSettled cur outcome) = isWorkflowConfigured wfid"
| "enabled wfid s ev = True"

definition lifecycle :: "jstr \<Rightarrow> (jstr \<Rightarrow> jsval option) \<Rightarrow> bool \<Rightarrow> event list \<Rightarrow> panel" where
  "lifecycle wfid parse registered evs =
     foldl (\<lambda>s ev. if enabled wfid s ev then step wfid parse s ev else s)
       (workflowEffect wfid (initial_panel registered)) evs"

section \<open>Widget actions\<close>








subsection \<open>The survey\<close>

text \<open>\<open>k.replace(/^q4_/, "")\<close>\<close>

definition strip_q4 :: "jstr \<Rightarrow> jstr" where
  "strip_q4 k = (if startsWith k (lit ''q4_'') then drop (length (lit ''q4_'')) k else k)"

definition allergies_of :: "(jstr \<times> jsval) list \<Rightarrow> jstr list" where
  "allergies_of payload =
     (let allergies =
            map (\<lambda>(k, v). strip_q4 k)
              (filter (\<lambda>(k, v). startsWith k (lit ''q4_'') \<and> truthy v) payload)
      in if lit ''none'' \<in> set allergies then [lit ''none''] else allergies)"


record survey =
  q1 :: jsval
  q2 :: jsval
  q3 :: jsval
  q4 :: "jstr list"
  q5 :: jsval
  q6 :: jsval
  q7 :: jsval
  q8 :: jsval



text \<open>
  \<open>s.replace(/\b\w/g, (c) => c.toUpperCase())\<close>: a unit of \<open>\w\<close> is replaced when the
  unit before it is none, or when it is the first. The flag says whether the unit before
  is of \<open>\w\<close>.
\<close>

fun capitalize :: "bool \<Rightarrow> jstr \<Rightarrow> jstr" where
  "capitalize prev [] = []"
| "capitalize prev (c # cs) =
     (if is_word c \<and> \<not> prev then toUpperCase c else c) # capitalize (is_word c) cs"

text \<open>\<open>s.replace(/[-_]/g, " ")\<close>\<close>

definition spaces :: "jstr \<Rightarrow> jstr" where
  "spaces s = map (\<lambda>c. if c = 0x2D \<or> c = 0x5F then 0x20 else c) s"

definition pretty :: "jsval \<Rightarrow> js_error + jstr" where
  "pretty v =
     (if js_typeof v = ''string'' then Inr (capitalize False (spaces (str_val v)))
      else js_String v)"

definition list_text :: "jsval list \<Rightarrow> js_error + jstr" where
  "list_text arr =
     (if arr = [] then Inr (lit ''None'')
      else (case sequence (map pretty arr) of
              Inl e \<Rightarrow> Inl e
            | Inr ss \<Rightarrow> Inr (join (lit '', '') ss)))"










lemma typeof_string_iff: "js_typeof v = ''string'' \<longleftrightarrow> (\<exists>s. v = JStr s)"
  by (cases v) auto

lemma first_string_skip: "js_typeof v \<noteq> ''string'' \<Longrightarrow> first_string (v # vs) fb = first_string vs fb"
  by (cases v) auto

lemma js_get_non_object: "(\<And>fs. v \<noteq> JObj fs) \<Longrightarrow> js_get v k = JUndefined"
  by (cases v) auto

lemma first_string_Cons:
  "first_string (v # vs) fb = (if js_typeof v = ''string'' then str_val v else first_string vs fb)"
  by (cases v) auto

lemma get_string_guard:
  "(truthy v \<and> js_typeof v = ''object'' \<and> js_in k v \<and> js_typeof (js_get v k) = ''string'')
     = (js_typeof (js_get v k) = ''string'')"
  by (cases v) (auto split: option.splits)

lemma nested_detail_paths:
  "nested_detail d =
     (if js_typeof (js_get d (lit ''error'')) = ''string'' then Some (str_val (js_get d (lit ''error'')))
      else if js_typeof (js_get (js_get d (lit ''error'')) (lit ''message'')) = ''string''
      then Some (str_val (js_get (js_get d (lit ''error'')) (lit ''message'')))
      else None)"
  unfolding nested_detail_def Let_def get_string_guard
  by (cases d) (auto split: option.splits)

lemma falsy_get: "\<not> truthy v \<Longrightarrow> js_get v k = JUndefined"
  by (cases v) auto

lemma extract_is_spec: "extractErrorDetail p fb = spec_error_message p fb"
proof (cases "truthy p")
  case False
  then show ?thesis
    by (simp add: extractErrorDetail_def spec_error_message_def precedence_def
        first_string_Cons falsy_get)
next
  case True
  then show ?thesis
    unfolding extractErrorDetail_def spec_error_message_def precedence_def Let_def
      get_string_guard nested_detail_paths
    by (simp add: first_string_Cons)
qed

lemma extract_error: "extractErrorDetail (JObj [(lit ''error'', JStr A)]) fb = A"
  by (simp add: extractErrorDetail_def)
lemma extract_error_message: "extractErrorDetail (JObj [(lit ''error'', JObj [(lit ''message'', JStr B)])]) fb = B"
  by (simp add: extractErrorDetail_def)
lemma extract_details: "extractErrorDetail (JObj [(lit ''details'', JStr C)]) fb = C"
  by (simp add: extractErrorDetail_def lit_def)
lemma extract_details_error: "extractErrorDetail (JObj [(lit ''details'', JObj [(lit ''error'', JStr D)])]) fb = D"
  by (simp add: extractErrorDetail_def lit_def nested_detail_def)
lemma extract_details_error_message: "extractErrorDetail (JObj [(lit ''details'', JObj [(lit ''error'', JObj [(lit ''message'', JStr E)])])]) fb = E"
  by (simp add: extractErrorDetail_def lit_def nested_detail_def)
lemma extract_message: "extractErrorDetail (JObj [(lit ''message'', JStr F)]) fb = F"
  by (simp add: extractErrorDetail_def lit_def nested_detail_def)
lemma extract_empty: "extractErrorDetail (JObj []) fb = fb"
  by (simp add: extractErrorDetail_def lit_def nested_detail_def)


text \<open>
  C1. For every payload and fallback, \<open>extractErrorDetail\<close> returns the first match of the
  fixed precedence order (top-level \<open>error\<close> string, \<open>error.message\<close>, top-level
  \<open>details\<close> string, \<open>details.error\<close>, \<open>details.error.message\<close>, top-level
  \<open>message\<close>), and the fallback when none is a string. In particular it maps the seven
  payload shapes of the specification to \<open>A\<close>, \<open>B\<close>, \<open>C\<close>, \<open>D\<close>, \<open>E\<close>, \<open>F\<close> and
  the fallback.
\<close>

theorem extractErrorDetail_precedence:
  "extractErrorDetail p fb = spec_error_message p fb
   \<and> extractErrorDetail (JObj [(lit ''error'', JStr A)]) fb = A
   \<and> extractErrorDetail (JObj [(lit ''error'', JObj [(lit ''message'', JStr B)])]) fb = B
   \<and> extractErrorDetail (JObj [(lit ''details'', JStr C)]) fb = C
   \<and> extractErrorDetail (JObj [(lit ''details'', JObj [(lit ''error'', JStr D)])]) fb = D
   \<and> extractErrorDetail
         (JObj [(lit ''details'', JObj [(lit ''error'', JObj [(lit ''message'', JStr E)])])]) fb = E
   \<and> extractErrorDetail (JObj [(lit ''message'', JStr F)]) fb = F
   \<and> extractErrorDetail (JObj []) fb = fb"
  using extract_is_spec extract_error extract_error_message extract_details extract_details_error extract_details_error_message extract_message extract_empty by simp

theorem extractErrorDetail_precedence_witness:
  "extractErrorDetail
     (JObj [(lit ''message'', JStr (lit ''F'')),
            (lit ''details'', JObj [(lit ''error'', JNum (lit ''7''))]),
            (lit ''error'', JObj [(lit ''code'', JStr (lit ''x''))])]) (lit ''Bad Gateway'')
   = lit ''F''"
  using extractErrorDetail_precedence
    [of "JObj [(lit ''message'', JStr (lit ''F'')),
            (lit ''details'', JObj [(lit ''error'', JNum (lit ''7''))]),
            (lit ''error'', JObj [(lit ''code'', JStr (lit ''x''))])]" "lit ''Bad Gateway''"]
  by (simp add: spec_error_message_def precedence_def lit_def)

section \<open>The quiz endpoint\<close>

lemma quiz_POST_destructurable:
  "destructurable b \<Longrightarrow>
   quiz_POST (Inr b) =
     (if truthy (js_get b (lit ''quizId'')) \<and> truthy (js_get b (lit ''answer''))
      then Inr \<lparr>status = 200, json = JObj [(lit ''ok'', JBool True)]\<rparr>
      else Inr \<lparr>status = 400, json = JObj [(lit ''error'', JStr (lit ''Missing quizId or answer''))]\<rparr>)"
  by (simp add: quiz_POST_def quiz_POST_try_def)

lemma quiz_POST_rejected:
  "quiz_POST (Inl e) =
     Inr \<lparr>status = 400, json = JObj [(lit ''error'', JStr (lit ''Missing quizId or answer''))]\<rparr>"
  by (simp add: quiz_POST_def quiz_POST_try_def destructurable_def)

lemma quiz_POST_replies: "\<exists>r. quiz_POST parsed = Inr r"
  by (simp add: quiz_POST_def split: sum.splits)

lemma absent_is_falsy: "\<not> js_in k b \<Longrightarrow> \<not> truthy (js_get b k)"
  by (cases b) (auto split: option.splits)

text \<open>
  The body \<open>null\<close> is JSON, has neither field, and is answered with 500: the destructuring
  raises inside the \<open>try\<close>. The survey endpoint guards the same place with \<open>body || {}\<close>
  and answers 400.
\<close>

lemma quiz_POST_null:
  "quiz_POST (Inr JNull) = Inr \<lparr>status = 500, json = JObj [(lit ''error'', JStr (lit ''Internal error''))]\<rparr>"
  by (simp add: quiz_POST_def quiz_POST_try_def destructurable_def)

lemma survey_POST_null:
  "survey_POST (Inr JNull) =
     Inr \<lparr>status = 400, json = JObj [(lit ''error'', JStr (lit ''Missing required fields''))]\<rparr>"
  by (simp add: survey_POST_def survey_POST_try_def destructurable_def)

text \<open>
  C9, as stated, fails: with \<open>quizId\<close> the empty string and \<open>answer\<close> \<open>"B"\<close> both fields
  are present, and the reply is the 400 one.
\<close>

theorem quiz_POST_present_not_ok:
  "js_in (lit ''quizId'') (JObj [(lit ''quizId'', JStr []), (lit ''answer'', JStr (lit ''B''))])
   \<and> js_in (lit ''answer'') (JObj [(lit ''quizId'', JStr []), (lit ''answer'', JStr (lit ''B''))])
   \<and> quiz_POST (Inr (JObj [(lit ''quizId'', JStr []), (lit ''answer'', JStr (lit ''B''))]))
       = Inr \<lparr>status = 400, json = JObj [(lit ''error'', JStr (lit ''Missing quizId or answer''))]\<rparr>
   \<and> quiz_POST (Inr (JObj [(lit ''quizId'', JStr []), (lit ''answer'', JStr (lit ''B''))]))
       \<noteq> Inr \<lparr>status = 200, json = JObj [(lit ''ok'', JBool True)]\<rparr>"
  by (simp add: quiz_POST_def quiz_POST_try_def destructurable_def lit_def)

text \<open>
  C9, amended. For every POST request whose JSON body is not \<open>null\<close>: if \<open>quizId\<close> or
  \<open>answer\<close> is missing or falsy, the reply has status 400 and the message
  \<open>Missing quizId or answer\<close>; if both are truthy, the reply is \<open>{ok: true}\<close> with
  status 200.
\<close>

theorem quiz_POST_required_fields:
  assumes "b \<noteq> JNull" and "b \<noteq> JUndefined"
  shows "(\<not> js_in (lit ''quizId'') b \<or> \<not> js_in (lit ''answer'') b
            \<or> \<not> truthy (js_get b (lit ''quizId'')) \<or> \<not> truthy (js_get b (lit ''answer''))
          \<longrightarrow> quiz_POST (Inr b)
                = Inr \<lparr>status = 400,
                       json = JObj [(lit ''error'', JStr (lit ''Missing quizId or answer''))]\<rparr>)
       \<and> (truthy (js_get b (lit ''quizId'')) \<and> truthy (js_get b (lit ''answer''))
          \<longrightarrow> quiz_POST (Inr b) = Inr \<lparr>status = 200, json = JObj [(lit ''ok'', JBool True)]\<rparr>)"
proof -
  have d: "destructurable b"
    using assms by (simp add: destructurable_def)
  show ?thesis
    using quiz_POST_destructurable [OF d] absent_is_falsy [of "lit ''quizId''" b]
      absent_is_falsy [of "lit ''answer''" b]
    by auto
qed

theorem quiz_POST_required_fields_witness:
  "quiz_POST (Inr (JObj [(lit ''quizId'', JStr (lit ''Q1''))]))
     = Inr \<lparr>status = 400, json = JObj [(lit ''error'', JStr (lit ''Missing quizId or answer''))]\<rparr>
   \<and> quiz_POST (Inr (JObj [(lit ''quizId'', JStr (lit ''Q1'')), (lit ''answer'', JStr (lit ''B''))]))
     = Inr \<lparr>status = 200, json = JObj [(lit ''ok'', JBool True)]\<rparr>"
  using quiz_POST_required_fields [of "JObj [(lit ''quizId'', JStr (lit ''Q1''))]"]
    quiz_POST_required_fields
      [of "JObj [(lit ''quizId'', JStr (lit ''Q1'')), (lit ''answer'', JStr (lit ''B''))]"]
  by (simp add: lit_def)

text \<open>
  C10. A request whose body is not parseable as JSON, and a request with an object body
  in which \<open>quizId\<close> or \<open>answer\<close> is falsy (the empty string, 0, \<open>false\<close> or \<open>null\<close> for
  example), get the same 400 reply as a request without the field; the handler always
  replies, and raises nothing.
\<close>

theorem quiz_POST_unparseable_or_falsy:
  "quiz_POST (Inl e)
     = Inr \<lparr>status = 400, json = JObj [(lit ''error'', JStr (lit ''Missing quizId or answer''))]\<rparr>
   \<and> (\<not> truthy (js_get (JObj fs) (lit ''quizId'')) \<or> \<not> truthy (js_get (JObj fs) (lit ''answer''))
      \<longrightarrow> quiz_POST (Inr (JObj fs))
            = Inr \<lparr>status = 400,
                   json = JObj [(lit ''error'', JStr (lit ''Missing quizId or answer''))]\<rparr>)
   \<and> (\<forall>v \<in> {JStr [], JNum (lit ''0''), JBool False, JNull}.
        quiz_POST (Inr (JObj [(lit ''quizId'', v), (lit ''answer'', a)])) = quiz_POST (Inr (JObj []))
        \<and> quiz_POST (Inr (JObj [(lit ''quizId'', q), (lit ''answer'', v)])) = quiz_POST (Inr (JObj [])))
   \<and> quiz_POST (Inr (JObj [])) = quiz_POST (Inl e)
   \<and> (\<exists>r. quiz_POST parsed = Inr r)"
proof -
  have d: "destructurable (JObj xs)" for xs
    by (simp add: destructurable_def)
  have "quiz_POST (Inr (JObj [(lit ''quizId'', v), (lit ''answer'', a)])) = quiz_POST (Inr (JObj []))
      \<and> quiz_POST (Inr (JObj [(lit ''quizId'', q), (lit ''answer'', v)])) = quiz_POST (Inr (JObj []))"
    if "\<not> truthy v" for v
    using that by (simp add: quiz_POST_destructurable [OF d] lit_def)
  then show ?thesis
    using quiz_POST_rejected [of e] quiz_POST_replies [of parsed]
    by (simp add: quiz_POST_destructurable [OF d])
qed

theorem quiz_POST_unparseable_or_falsy_witness:
  "quiz_POST (Inl NonError)
     = Inr \<lparr>status = 400, json = JObj [(lit ''error'', JStr (lit ''Missing quizId or answer''))]\<rparr>
   \<and> quiz_POST (Inr (JObj [(lit ''quizId'', JStr (lit ''Q1'')), (lit ''answer'', JNum (lit ''0''))]))
     = Inr \<lparr>status = 400, json = JObj [(lit ''error'', JStr (lit ''Missing quizId or answer''))]\<rparr>"
  using quiz_POST_unparseable_or_falsy
    [of NonError "[(lit ''quizId'', JStr (lit ''Q1'')), (lit ''answer'', JNum (lit ''0''))]"]
  by (simp add: lit_def)

section \<open>Credential acquisition\<close>

lemma not_configured_iff:
  "(\<not> isWorkflowConfigured w) = (w = [] \<or> startsWith w (lit ''wf_replace''))"
  by (auto simp: isWorkflowConfigured_def)

lemma enter_unconfigured:
  "\<not> isWorkflowConfigured w \<Longrightarrow>
   getClientSecret_enter w cur s =
     (Some (Error config_detail),
      if isMounted s
      then s\<lparr>errors := (errors s)\<lparr>session := Some config_detail, retryable := False\<rparr>,
             isInitializingSession := False\<rparr>
      else s)"
  by (simp add: getClientSecret_enter_def setErrorState_def)

lemma enter_configured:
  "isWorkflowConfigured w \<Longrightarrow>
   getClientSecret_enter w cur s =
     (None,
      if isMounted s
      then s\<lparr>errors := (errors s)\<lparr>session := None, integration := None, retryable := False\<rparr>,
             isInitializingSession := (if truthy cur then isInitializingSession s else True)\<rparr>
      else s)"
  by (simp add: getClientSecret_enter_def setErrorState_def)

lemma settle_credential:
  assumes "ok r" and "resp_text r = Inr raw"
    and "truthy (js_get (response_data parse raw) (lit ''client_secret''))"
  shows "getClientSecret_settle parse cur (Responds r) s =
     (Inr (js_get (response_data parse raw) (lit ''client_secret'')),
      if isMounted s
      then s\<lparr>errors := (errors s)\<lparr>session := None, integration := None\<rparr>,
             isInitializingSession := (if truthy cur then isInitializingSession s else False)\<rparr>
      else s)"
  using assms
  by (simp add: getClientSecret_settle_def getClientSecret_try_def getClientSecret_finally_def
      setErrorState_def)

lemma settle_missing:
  assumes "ok r" and "resp_text r = Inr raw"
    and "\<not> truthy (js_get (response_data parse raw) (lit ''client_secret''))"
  shows "getClientSecret_settle parse cur (Responds r) s =
     (Inl (Error (lit ''Missing client secret in response'')),
      if isMounted s
      then s\<lparr>errors := (errors s)\<lparr>session := Some (lit ''Missing client secret in response''),
                                    retryable := False\<rparr>,
             isInitializingSession := (if truthy cur then isInitializingSession s else False)\<rparr>
      else s)"
  using assms
  by (simp add: getClientSecret_settle_def getClientSecret_try_def getClientSecret_catch_def
      getClientSecret_finally_def setErrorState_def)

text \<open>
  With an unconfigured workflow the session slot holds the configuration message from
  the mount effect on, and no event of the life of the component changes that.
\<close>

lemma unconfigured_step:
  assumes "\<not> isWorkflowConfigured w"
    and "session (errors s) = Some config_detail \<and> \<not> retryable (errors s)"
    and "enabled w s ev"
  shows "session (errors (step w parse s ev)) = Some config_detail
         \<and> \<not> retryable (errors (step w parse s ev))"
proof (cases ev)
  case (ScriptError d)
  then show ?thesis
    using assms by (simp add: handleError_def setErrorState_def Let_def split: sum.splits)
next
  case (ManualRestart registered)
  then show ?thesis
    using assms by (simp add: onRetry_given_def)
next
  case (SecretRequested cur)
  then show ?thesis
    using assms by (simp add: enter_unconfigured)
next
  case (SecretSettled cur outcome)
  then show ?thesis
    using assms by simp
next
  case (ClientTool name params)
  then show ?thesis
    using assms by (simp add: onClientTool_def Let_def split: sum.splits)
qed (use assms in \<open>simp_all add: handleLoaded_def workflowEffect_def onResponseStart_def
      onThreadChange_def unmount_def setErrorState_def\<close>)

lemma unconfigured_foldl:
  assumes "\<not> isWorkflowConfigured w"
  shows "session (errors s) = Some config_detail \<and> \<not> retryable (errors s) \<Longrightarrow>
     session (errors (foldl (\<lambda>s ev. if enabled w s ev then step w parse s ev else s) s evs))
       = Some config_detail
     \<and> \<not> retryable (errors (foldl (\<lambda>s ev. if enabled w s ev then step w parse s ev else s) s evs))"
proof (induction evs arbitrary: s)
  case Nil
  then show ?case by simp
next
  case (Cons ev evs)
  have "session (errors (if enabled w s ev then step w parse s ev else s)) = Some config_detail
        \<and> \<not> retryable (errors (if enabled w s ev then step w parse s ev else s))"
    using unconfigured_step [OF assms Cons.prems, of ev parse] Cons.prems by simp
  then show ?case
    using Cons.IH by simp
qed

lemma unconfigured_lifecycle:
  assumes "\<not> isWorkflowConfigured w"
  shows "session (errors (lifecycle w parse registered evs)) = Some config_detail
         \<and> \<not> retryable (errors (lifecycle w parse registered evs))"
proof -
  have "session (errors (workflowEffect w (initial_panel registered))) = Some config_detail
        \<and> \<not> retryable (errors (workflowEffect w (initial_panel registered)))"
    using assms by (simp add: workflowEffect_def initial_panel_def setErrorState_def)
  then show ?thesis
    unfolding lifecycle_def by (rule unconfigured_foldl [OF assms])
qed

text \<open>
  C7. Whenever the workflow identifier is unset or starts with the placeholder
  \<open>wf_replace\<close>, an invocation of \<open>getClientSecret\<close> in any state of the life of the
  component, and in any mounted state, fails with the fixed configuration message and
  makes no request to the session endpoint, and the session slot then holds that message
  with \<open>retryable\<close> false. In every state the state after the call is the one given:
  a mounted panel writes the slot, and an unmounted one, where the mount effect has
  written it before, is left as it is.
\<close>

theorem getClientSecret_unconfigured:
  assumes "WORKFLOW_ID = [] \<or> startsWith WORKFLOW_ID (lit ''wf_replace'')"
  shows "getClientSecret endpoint WORKFLOW_ID parse fetch currentSecret s =
     (Inl (Error (lit ''Set NEXT_PUBLIC_CHATKIT_WORKFLOW_ID in your .env.local file.'')),
      (if isMounted s
       then s\<lparr>errors := (errors s)
                 \<lparr>session := Some (lit ''Set NEXT_PUBLIC_CHATKIT_WORKFLOW_ID in your .env.local file.''),
                  retryable := False\<rparr>,
              isInitializingSession := False\<rparr>
       else s),
      [])
   \<and> (isMounted s \<or> s = lifecycle WORKFLOW_ID parse registered evs \<longrightarrow>
        session (errors (fst (snd (getClientSecret endpoint WORKFLOW_ID parse fetch currentSecret s))))
          = Some (lit ''Set NEXT_PUBLIC_CHATKIT_WORKFLOW_ID in your .env.local file.'')
        \<and> \<not> retryable (errors (fst (snd
              (getClientSecret endpoint WORKFLOW_ID parse fetch currentSecret s)))))"
proof -
  have u: "\<not> isWorkflowConfigured WORKFLOW_ID"
    using assms by (simp add: not_configured_iff)
  have call: "getClientSecret endpoint WORKFLOW_ID parse fetch currentSecret s =
     (Inl (Error config_detail),
      (if isMounted s
       then s\<lparr>errors := (errors s)\<lparr>session := Some config_detail, retryable := False\<rparr>,
              isInitializingSession := False\<rparr>
       else s),
      [])"
    using u by (simp add: getClientSecret_def enter_unconfigured)
  have "session (errors (fst (snd (getClientSecret endpoint WORKFLOW_ID parse fetch currentSecret s))))
          = Some config_detail
        \<and> \<not> retryable (errors (fst (snd
              (getClientSecret endpoint WORKFLOW_ID parse fetch currentSecret s))))"
    if "isMounted s \<or> s = lifecycle WORKFLOW_ID parse registered evs"
    using that unconfigured_lifecycle [OF u, of parse registered evs]
    by (auto simp: call)
  then show ?thesis
    using call by (simp add: config_detail_def)
qed

theorem getClientSecret_unconfigured_witness:
  "fst (getClientSecret (lit ''/api/create-session'') (lit ''wf_replace_me'') (reading JNull) offline
          JNull (lifecycle (lit ''wf_replace_me'') (reading JNull) True [ScriptLoaded, Unmount]))
     = Inl (Error (lit ''Set NEXT_PUBLIC_CHATKIT_WORKFLOW_ID in your .env.local file.''))
   \<and> snd (snd (getClientSecret (lit ''/api/create-session'') (lit ''wf_replace_me'') (reading JNull)
          offline JNull (lifecycle (lit ''wf_replace_me'') (reading JNull) True [ScriptLoaded, Unmount])))
     = []
   \<and> session (errors (fst (snd (getClientSecret (lit ''/api/create-session'') (lit ''wf_replace_me'')
          (reading JNull) offline JNull
          (lifecycle (lit ''wf_replace_me'') (reading JNull) True [ScriptLoaded, Unmount])))))
     = Some (lit ''Set NEXT_PUBLIC_CHATKIT_WORKFLOW_ID in your .env.local file.'')
   \<and> \<not> isMounted (lifecycle (lit ''wf_replace_me'') (reading JNull) True [ScriptLoaded, Unmount])"
proof -
  have h: "lit ''wf_replace_me'' = [] \<or> startsWith (lit ''wf_replace_me'') (lit ''wf_replace'')"
    by (simp add: startsWith_def lit_def)
  have m: "\<not> isMounted (lifecycle (lit ''wf_replace_me'') (reading JNull) True [ScriptLoaded, Unmount])"
    by (simp add: lifecycle_def unmount_def)
  note call = getClientSecret_unconfigured [OF h, of "lit ''/api/create-session''" "reading JNull"
        offline JNull "lifecycle (lit ''wf_replace_me'') (reading JNull) True [ScriptLoaded, Unmount]"
        True "[ScriptLoaded, Unmount]"]
  have r: "fst (getClientSecret (lit ''/api/create-session'') (lit ''wf_replace_me'') (reading JNull)
          offline JNull (lifecycle (lit ''wf_replace_me'') (reading JNull) True [ScriptLoaded, Unmount]))
     = Inl (Error (lit ''Set NEXT_PUBLIC_CHATKIT_WORKFLOW_ID in your .env.local file.''))"
    using call [THEN conjunct1] by simp
  have n: "snd (snd (getClientSecret (lit ''/api/create-session'') (lit ''wf_replace_me'')
          (reading JNull) offline JNull
          (lifecycle (lit ''wf_replace_me'') (reading JNull) True [ScriptLoaded, Unmount]))) = []"
    using call [THEN conjunct1] by simp
  show ?thesis
    using r n m call [THEN conjunct2] by blast
qed

text \<open>
  C6, as stated, fails. A success response whose credential field is the empty string
  is answered with the missing-credential failure. A success response with a credential
  to a call made after unmount returns the credential and clears nothing: the session
  slot keeps the message of the failure before. And when the panel is unmounted while
  the request is in flight, a success response without a credential fails with the fixed
  message, which is not recorded.
\<close>

theorem getClientSecret_falsy_or_unmounted:
  "js_in (lit ''client_secret'') (JObj [(lit ''client_secret'', JStr [])])
   \<and> fst (getClientSecret (lit ''/api/create-session'') (lit ''wf_1'')
            (reading (JObj [(lit ''client_secret'', JStr [])]))
            (answering \<lparr>resp_status = 200, statusText = lit ''OK'', resp_text = Inr empty_secret_raw\<rparr>)
            JNull (initial_panel True))
       = Inl (Error (lit ''Missing client secret in response''))
   \<and> isMounted (initial_panel True)
   \<and> fst (getClientSecret (lit ''/api/create-session'') (lit ''wf_1'')
            (reading (JObj [(lit ''client_secret'', JStr (lit ''cs_1''))]))
            (answering \<lparr>resp_status = 200, statusText = lit ''OK'', resp_text = Inr secret_raw\<rparr>)
            (JStr (lit ''cs_0''))
            (run (lit ''wf_1'') (reading JNull) True
               [SecretRequested JNull,
                SecretSettled JNull (offline (session_request (lit ''/api/create-session'') (lit ''wf_1''))),
                Unmount]))
       = Inr (JStr (lit ''cs_1''))
   \<and> session (errors (fst (snd (getClientSecret (lit ''/api/create-session'') (lit ''wf_1'')
            (reading (JObj [(lit ''client_secret'', JStr (lit ''cs_1''))]))
            (answering \<lparr>resp_status = 200, statusText = lit ''OK'', resp_text = Inr secret_raw\<rparr>)
            (JStr (lit ''cs_0''))
            (run (lit ''wf_1'') (reading JNull) True
               [SecretRequested JNull,
                SecretSettled JNull (offline (session_request (lit ''/api/create-session'') (lit ''wf_1''))),
                Unmount])))))
       = Some (lit ''Failed to fetch'')
   \<and> fst (getClientSecret_settle (reading (JObj [])) JNull
            (Responds \<lparr>resp_status = 200, statusText = lit ''OK'', resp_text = Inr (lit ''{}'')\<rparr>)
            (run (lit ''wf_1'') (reading JNull) True [SecretRequested JNull, Unmount]))
       = Inl (Error (lit ''Missing client secret in response''))
   \<and> session (errors (snd (getClientSecret_settle (reading (JObj [])) JNull
            (Responds \<lparr>resp_status = 200, statusText = lit ''OK'', resp_text = Inr (lit ''{}'')\<rparr>)
            (run (lit ''wf_1'') (reading JNull) True [SecretRequested JNull, Unmount]))))
       = None"
  by (simp add: getClientSecret_def getClientSecret_enter_def getClientSecret_settle_def
      getClientSecret_try_def getClientSecret_catch_def getClientSecret_finally_def
      response_data_def isWorkflowConfigured_def startsWith_def reading_def answering_def
      offline_def ok_def run_def unmount_def initial_panel_def createInitialErrors_def
      setErrorState_def empty_secret_raw_def secret_raw_def lit_def)

text \<open>
  C6, amended. Take a success (2xx) response of the session endpoint whose body can be
  read, arriving in any state of the panel, whatever has happened while the request was
  in flight. If the body parses to a value whose \<open>client_secret\<close> is truthy, credential
  acquisition returns that credential and, when the panel is mounted at that moment,
  empties the session and integration slots. If the field is absent or falsy (the empty
  string or \<open>null\<close>, say), it fails with \<open>Missing client secret in response\<close> and,
  when the panel is mounted at that moment, records that message in the session slot
  with \<open>retryable\<close> false. A panel that is unmounted when the response arrives is left as
  it is. For a call with a configured workflow that nothing interrupts, the result, the
  state and the one request are the ones given.
\<close>

theorem getClientSecret_success_response:
  assumes "ok r" and "resp_text r = Inr raw"
  shows
    "(truthy (js_get (response_data parse raw) (lit ''client_secret'')) \<longrightarrow>
        getClientSecret_settle parse currentSecret (Responds r) s =
          (Inr (js_get (response_data parse raw) (lit ''client_secret'')),
           (if isMounted s
            then s\<lparr>errors := (errors s)\<lparr>session := None, integration := None\<rparr>,
                   isInitializingSession :=
                     (if truthy currentSecret then isInitializingSession s else False)\<rparr>
            else s)))
     \<and> (\<not> truthy (js_get (response_data parse raw) (lit ''client_secret'')) \<longrightarrow>
        getClientSecret_settle parse currentSecret (Responds r) s =
          (Inl (Error (lit ''Missing client secret in response'')),
           (if isMounted s
            then s\<lparr>errors := (errors s)\<lparr>session := Some (lit ''Missing client secret in response''),
                                          retryable := False\<rparr>,
                   isInitializingSession :=
                     (if truthy currentSecret then isInitializingSession s else False)\<rparr>
            else s)))
     \<and> (isWorkflowConfigured WORKFLOW_ID \<and> fetch (session_request endpoint WORKFLOW_ID) = Responds r
        \<longrightarrow>
        (truthy (js_get (response_data parse raw) (lit ''client_secret'')) \<longrightarrow>
           getClientSecret endpoint WORKFLOW_ID parse fetch currentSecret s =
            (Inr (js_get (response_data parse raw) (lit ''client_secret'')),
             (if isMounted s
              then s\<lparr>errors := (errors s)\<lparr>session := None, integration := None, retryable := False\<rparr>,
                     isInitializingSession :=
                       (if truthy currentSecret then isInitializingSession s else False)\<rparr>
              else s),
             [session_request endpoint WORKFLOW_ID]))
        \<and> (\<not> truthy (js_get (response_data parse raw) (lit ''client_secret'')) \<longrightarrow>
           getClientSecret endpoint WORKFLOW_ID parse fetch currentSecret s =
            (Inl (Error (lit ''Missing client secret in response'')),
             (if isMounted s
              then s\<lparr>errors := (errors s)\<lparr>session := Some (lit ''Missing client secret in response''),
                                            integration := None, retryable := False\<rparr>,
                     isInitializingSession :=
                       (if truthy currentSecret then isInitializingSession s else False)\<rparr>
              else s),
             [session_request endpoint WORKFLOW_ID])))"
  using assms
  by (simp add: getClientSecret_def enter_configured settle_credential settle_missing)

text \<open>
  Two calls race: the second fails while the first is in flight and writes the session
  slot; the success response to the first then empties it.
\<close>

theorem getClientSecret_success_response_witness:
  "session (errors (run (lit ''wf_1'') (reading JNull) True
       [SecretRequested JNull, SecretRequested JNull,
        SecretSettled JNull (offline (session_request (lit ''/api/create-session'') (lit ''wf_1'')))]))
     = Some (lit ''Failed to fetch'')
   \<and> fst (getClientSecret_settle (reading (JObj [(lit ''client_secret'', JStr (lit ''cs_1''))])) JNull
       (Responds \<lparr>resp_status = 200, statusText = lit ''OK'', resp_text = Inr secret_raw\<rparr>)
       (run (lit ''wf_1'') (reading JNull) True
         [SecretRequested JNull, SecretRequested JNull,
          SecretSettled JNull (offline (session_request (lit ''/api/create-session'') (lit ''wf_1'')))]))
     = Inr (JStr (lit ''cs_1''))
   \<and> session (errors (snd
       (getClientSecret_settle (reading (JObj [(lit ''client_secret'', JStr (lit ''cs_1''))])) JNull
         (Responds \<lparr>resp_status = 200, statusText = lit ''OK'', resp_text = Inr secret_raw\<rparr>)
         (run (lit ''wf_1'') (reading JNull) True
           [SecretRequested JNull, SecretRequested JNull,
            SecretSettled JNull (offline (session_request (lit ''/api/create-session'') (lit ''wf_1'')))]))))
     = None"
proof -
  let ?r = "\<lparr>resp_status = 200, statusText = lit ''OK'', resp_text = Inr secret_raw\<rparr>"
  let ?s = "run (lit ''wf_1'') (reading JNull) True
         [SecretRequested JNull, SecretRequested JNull,
          SecretSettled JNull (offline (session_request (lit ''/api/create-session'') (lit ''wf_1'')))]"
  have o: "ok ?r"
    by (simp add: ok_def)
  have t: "resp_text ?r = Inr secret_raw"
    by simp
  have c: "isWorkflowConfigured (lit ''wf_1'')"
    by (simp add: isWorkflowConfigured_def startsWith_def lit_def)
  have d: "js_get (response_data (reading (JObj [(lit ''client_secret'', JStr (lit ''cs_1''))])) secret_raw)
             (lit ''client_secret'') = JStr (lit ''cs_1'')"
    by (simp add: response_data_def reading_def secret_raw_def lit_def)
  have s: "isMounted ?s \<and> session (errors ?s) = Some (lit ''Failed to fetch'')"
    by (simp add: run_def enter_configured [OF c] getClientSecret_settle_def
        getClientSecret_try_def getClientSecret_catch_def getClientSecret_finally_def
        offline_def initial_panel_def setErrorState_def)
  have y: "truthy (JStr (lit ''cs_1''))"
    by (simp add: lit_def)
  show ?thesis
    using getClientSecret_success_response [OF o t,
        of "reading (JObj [(lit ''client_secret'', JStr (lit ''cs_1''))])" JNull ?s]
      s y
    by (simp add: d)
qed

section \<open>The retryable flag\<close>

lemma retryable_fold_assign:
  "\<not> retryable e \<Longrightarrow> SetRetryable True \<notin> set us \<Longrightarrow> \<not> retryable (fold assign us e)"
proof (induction us arbitrary: e)
  case Nil
  then show ?case by simp
next
  case (Cons u us)
  have "\<not> retryable (assign u e)"
    using Cons.prems by (cases u) auto
  then show ?case
    using Cons by simp
qed

lemma retryable_setErrorState:
  "\<not> retryable (errors s) \<Longrightarrow> SetRetryable True \<notin> set us \<Longrightarrow>
   \<not> retryable (errors (setErrorState us s))"
  by (simp add: setErrorState_def retryable_fold_assign)

lemma retryable_handleLoaded: "\<not> retryable (errors s) \<Longrightarrow> \<not> retryable (errors (handleLoaded s))"
  by (simp add: handleLoaded_def setErrorState_def)

lemma retryable_handleError: "\<not> retryable (errors s) \<Longrightarrow> \<not> retryable (errors (handleError d s))"
  by (simp add: handleError_def setErrorState_def Let_def split: sum.splits)

lemma retryable_workflowEffect:
  "\<not> retryable (errors s) \<Longrightarrow> \<not> retryable (errors (workflowEffect w s))"
  by (simp add: workflowEffect_def setErrorState_def)

lemma retryable_handleResetChat: "\<not> retryable (errors (handleResetChat registered s))"
  by (simp add: handleResetChat_def createInitialErrors_def)

lemma retryable_enter:
  "\<not> retryable (errors s) \<Longrightarrow> \<not> retryable (errors (snd (getClientSecret_enter w cur s)))"
  by (simp add: getClientSecret_enter_def setErrorState_def)

lemma retryable_try:
  "\<not> retryable (errors s) \<Longrightarrow> \<not> retryable (errors (snd (getClientSecret_try parse outcome s)))"
  by (simp add: getClientSecret_try_def setErrorState_def Let_def
      split: fetch_outcome.splits sum.splits)

lemma retryable_catch:
  "\<not> retryable (errors s) \<Longrightarrow> \<not> retryable (errors (snd (getClientSecret_catch e s)))"
  by (simp add: getClientSecret_catch_def setErrorState_def Let_def)

lemma retryable_finally:
  "\<not> retryable (errors s) \<Longrightarrow> \<not> retryable (errors (getClientSecret_finally cur s))"
  by (simp add: getClientSecret_finally_def)

lemma retryable_settle:
  assumes "\<not> retryable (errors s)"
  shows "\<not> retryable (errors (snd (getClientSecret_settle parse cur outcome s)))"
proof -
  obtain r1 s1 where t: "getClientSecret_try parse outcome s = (r1, s1)"
    by (cases "getClientSecret_try parse outcome s")
  have s1: "\<not> retryable (errors s1)"
    using retryable_try [OF assms, of parse outcome] t by simp
  show ?thesis
  proof (cases r1)
    case (Inl e)
    obtain r2 s2 where c: "getClientSecret_catch e s1 = (r2, s2)"
      by (cases "getClientSecret_catch e s1")
    have "\<not> retryable (errors s2)"
      using retryable_catch [OF s1, of e] c by simp
    then show ?thesis
      using t Inl c by (simp add: getClientSecret_settle_def retryable_finally)
  next
    case (Inr v)
    then show ?thesis
      using t s1 by (simp add: getClientSecret_settle_def retryable_finally)
  qed
qed

lemma retryable_onClientTool:
  "\<not> retryable (errors s) \<Longrightarrow> \<not> retryable (errors (fst (snd (onClientTool name params s))))"
  by (simp add: onClientTool_def Let_def split: sum.splits)

lemma retryable_step: "\<not> retryable (errors s) \<Longrightarrow> \<not> retryable (errors (step w parse s ev))"
  by (cases ev)
    (simp_all add: retryable_handleLoaded retryable_handleError retryable_workflowEffect
      retryable_handleResetChat retryable_enter retryable_settle retryable_onClientTool
      onResponseStart_def onThreadChange_def unmount_def setErrorState_def)

lemma retryable_foldl:
  "\<not> retryable (errors s) \<Longrightarrow> \<not> retryable (errors (foldl (step w parse) s evs))"
  by (induction evs arbitrary: s) (simp_all add: retryable_step)

text \<open>
  C8. In every state the panel reaches from its initial state, by script events, the
  configuration check, the two halves of credential acquisition in any interleaving,
  client tools, response start, thread change, manual restart and unmount, the
  \<open>retryable\<close> flag is false, and the overlay is given no retry handler.
\<close>

theorem retryable_never_set:
  "\<not> retryable (errors (run WORKFLOW_ID parse registered evs))
   \<and> \<not> onRetry_given (run WORKFLOW_ID parse registered evs)
   \<and> \<not> retryable createInitialErrors"
proof -
  have "\<not> retryable (errors (initial_panel registered))"
    by (simp add: initial_panel_def createInitialErrors_def)
  then have "\<not> retryable (errors (run WORKFLOW_ID parse registered evs))"
    unfolding run_def by (rule retryable_foldl)
  then show ?thesis
    by (simp add: onRetry_given_def createInitialErrors_def)
qed

theorem retryable_never_set_witness:
  "\<not> retryable (errors (run [] (reading JNull) False
        [WorkflowEffect, ScriptError JUndefined, SecretRequested JNull,
         SecretSettled JNull (offline (session_request (lit ''/api/create-session'') [])), ResponseStart,
         ManualRestart True]))
   \<and> blockingError (run [] (reading JNull) False [WorkflowEffect, ScriptError JUndefined])
       = Some (lit ''Error: unknown error'')"
  using retryable_never_set [of "[]" "reading JNull" False
      "[WorkflowEffect, ScriptError JUndefined, SecretRequested JNull,
         SecretSettled JNull (offline (session_request (lit ''/api/create-session'') [])), ResponseStart,
         ManualRestart True]"]
  by (simp add: run_def initial_panel_def createInitialErrors_def workflowEffect_def
      isWorkflowConfigured_def handleError_def setErrorState_def blockingError_def lit_def)

section \<open>Recording facts\<close>

lemma trimEnd_Nil: "trimEnd [] = []"
  by (simp add: trimEnd_def)

lemma trimEnd_Cons:
  "trimEnd (c # s) = (if trimEnd s = [] then (if is_space c then [] else [c]) else c # trimEnd s)"
  by (auto simp: trimEnd_def dropWhile_append)

lemma space_is_space: "is_space 0x20"
  by (simp add: is_space_def)

lemma collapse_True_no_lead: "trimStart (collapse True t) = collapse True t"
  unfolding trimStart_def by (induction t) auto

lemma trimStart_collapse: "trimStart (collapse False t) = collapse True t"
proof (cases t)
  case Nil
  then show ?thesis by (simp add: trimStart_def)
next
  case (Cons c cs)
  then show ?thesis
    using collapse_True_no_lead [of cs]
    by (simp add: trimStart_def space_is_space)
qed

lemma normalize_trimEnd: "normalize_text t = trimEnd (collapse True t)"
  by (simp add: normalize_text_def trim_def trimStart_collapse)

lemma words_nonempty: "[] \<notin> set (words_from cur t)"
  by (induction cur t rule: words_from.induct) auto

lemma join_Nil_iff: "[] \<notin> set ws \<Longrightarrow> (join sep ws = []) = (ws = [])"
  by (induction sep ws rule: join.induct) auto

lemma join_Cons: "join sep (w # ws) = (if ws = [] then w else w @ sep @ join sep ws)"
  by (cases ws) auto

text \<open>
  The scan and the split agree, whether the text before ends a run of white space or a
  word.
\<close>

lemma words_join:
  "trimEnd (collapse True t) = join [0x20] (words_from [] t)
   \<and> (\<forall>cur. cur \<noteq> [] \<longrightarrow> join [0x20] (words_from cur t) = cur @ trimEnd (collapse False t))"
proof (induction t)
  case Nil
  then show ?case by (simp add: trimEnd_Nil)
next
  case (Cons c cs)
  show ?case
  proof (cases "is_space c")
    case True
    have e: "(words_from [] cs = []) = (trimEnd (collapse True cs) = [])"
      using Cons join_Nil_iff [OF words_nonempty, of "[0x20]" "[]" cs] by simp
    show ?thesis
      using True Cons e by (simp add: trimEnd_Cons join_Cons space_is_space)
  next
    case False
    then show ?thesis
      using Cons by (simp add: trimEnd_Cons)
  qed
qed

lemma normalize_is_spec: "normalize_text t = spec_normalized t"
  by (simp add: normalize_trimEnd spec_normalized_def words_join)

lemma record_fact_noop:
  assumes "js_String (nullish (js_get (JObj params) (lit ''fact_id'')) (JStr [])) = Inr fid"
    and "js_String (nullish (js_get (JObj params) (lit ''fact_text'')) (JStr [])) = Inr ftext"
    and "fid = [] \<or> fid \<in> processedFacts s"
  shows "onClientTool (lit ''record_fact'') params s = (Inr True, s, [])"
  using assms by (auto simp: onClientTool_def lit_def)

lemma record_fact_fresh:
  assumes "js_String (nullish (js_get (JObj params) (lit ''fact_id'')) (JStr [])) = Inr fid"
    and "js_String (nullish (js_get (JObj params) (lit ''fact_text'')) (JStr [])) = Inr ftext"
    and "fid \<noteq> []" and "fid \<notin> processedFacts s"
  shows "onClientTool (lit ''record_fact'') params s =
     (Inr True, s\<lparr>processedFacts := insert fid (processedFacts s)\<rparr>,
      [WidgetAction \<lparr>factId = fid, factText = spec_normalized ftext\<rparr>])"
proof -
  have "lit ''record_fact'' \<noteq> lit ''switch_theme''"
    by (simp add: lit_def)
  then show ?thesis
    using assms by (simp add: onClientTool_def normalize_is_spec)
qed

lemma record_fact_raises:
  assumes "js_String (nullish (js_get (JObj params) (lit ''fact_id'')) (JStr [])) = Inl e
           \<or> js_String (nullish (js_get (JObj params) (lit ''fact_text'')) (JStr [])) = Inl e"
  shows "onClientTool (lit ''record_fact'') params s = (Inl TypeError, s, [])"
proof -
  have t: "x = TypeError" for x :: js_error
    by (cases x) simp
  have "lit ''record_fact'' \<noteq> lit ''switch_theme''"
    by (simp add: lit_def)
  then show ?thesis
    using assms by (auto simp: onClientTool_def t split: sum.splits)
qed

text \<open>
  C5, as stated, fails: an invocation with no identifier whose text is an object with a
  property \<open>toString\<close> has the empty identifier and does not report success; the
  conversion of the text, which comes before the test of the identifier, raises.
\<close>

theorem record_fact_empty_id_raises:
  "js_String (nullish (js_get (JObj [(lit ''fact_text'', JObj [(lit ''toString'', JNum (lit ''1''))])])
                 (lit ''fact_id'')) (JStr []))
     = Inr []
   \<and> onClientTool (lit ''record_fact'')
       [(lit ''fact_text'', JObj [(lit ''toString'', JNum (lit ''1''))])] (initial_panel True)
     = (Inl TypeError, initial_panel True, [])"
  by (simp add: onClientTool_def lit_def)

text \<open>
  C5, amended. Let an invocation of \<open>record_fact\<close> carry a \<open>fact_id\<close> and a
  \<open>fact_text\<close> that convert to the strings \<open>fid\<close> and \<open>ftext\<close>, as every string, number,
  boolean, \<open>null\<close> and absent value does. With an empty identifier, or one that is in
  the processed set, the invocation reports success and does nothing else. With a
  non-empty identifier that is not in the processed set, whatever else the set holds, it
  reports success, adds the identifier to the set and calls the fact-save callback once,
  with the identifier and the words of the text with one space between them; a second
  invocation with that identifier in the same thread reports success and changes
  nothing; after a thread change, which empties the set, an invocation with that
  identifier calls the callback again. An invocation whose identifier or text does not
  convert raises, and changes nothing.
\<close>

theorem record_fact_once:
  "(js_String (nullish (js_get (JObj params) (lit ''fact_id'')) (JStr [])) = Inr fid
      \<and> js_String (nullish (js_get (JObj params) (lit ''fact_text'')) (JStr [])) = Inr ftext
      \<and> js_String (nullish (js_get (JObj params2) (lit ''fact_id'')) (JStr [])) = Inr fid
      \<and> js_String (nullish (js_get (JObj params2) (lit ''fact_text'')) (JStr [])) = Inr ftext2
    \<longrightarrow>
      (fid = [] \<or> fid \<in> processedFacts s
         \<longrightarrow> onClientTool (lit ''record_fact'') params s = (Inr True, s, []))
      \<and> (fid \<noteq> [] \<and> fid \<notin> processedFacts s \<longrightarrow>
           onClientTool (lit ''record_fact'') params s
             = (Inr True, s\<lparr>processedFacts := insert fid (processedFacts s)\<rparr>,
                [WidgetAction \<lparr>factId = fid, factText = spec_normalized ftext\<rparr>])
           \<and> onClientTool (lit ''record_fact'') params2
                (s\<lparr>processedFacts := insert fid (processedFacts s)\<rparr>)
             = (Inr True, s\<lparr>processedFacts := insert fid (processedFacts s)\<rparr>, [])
           \<and> onClientTool (lit ''record_fact'') params2
                (onThreadChange (s\<lparr>processedFacts := insert fid (processedFacts s)\<rparr>))
             = (Inr True, s\<lparr>processedFacts := {fid}\<rparr>,
                [WidgetAction \<lparr>factId = fid, factText = spec_normalized ftext2\<rparr>])))
   \<and> processedFacts (onThreadChange s) = {}
   \<and> (js_String (nullish (js_get (JObj params) (lit ''fact_id'')) (JStr [])) = Inl e
        \<or> js_String (nullish (js_get (JObj params) (lit ''fact_text'')) (JStr [])) = Inl e
      \<longrightarrow> onClientTool (lit ''record_fact'') params s = (Inl TypeError, s, []))"
proof -
  have main: "(fid = [] \<or> fid \<in> processedFacts s
         \<longrightarrow> onClientTool (lit ''record_fact'') params s = (Inr True, s, []))
      \<and> (fid \<noteq> [] \<and> fid \<notin> processedFacts s \<longrightarrow>
           onClientTool (lit ''record_fact'') params s
             = (Inr True, s\<lparr>processedFacts := insert fid (processedFacts s)\<rparr>,
                [WidgetAction \<lparr>factId = fid, factText = spec_normalized ftext\<rparr>])
           \<and> onClientTool (lit ''record_fact'') params2
                (s\<lparr>processedFacts := insert fid (processedFacts s)\<rparr>)
             = (Inr True, s\<lparr>processedFacts := insert fid (processedFacts s)\<rparr>, [])
           \<and> onClientTool (lit ''record_fact'') params2
                (onThreadChange (s\<lparr>processedFacts := insert fid (processedFacts s)\<rparr>))
             = (Inr True, s\<lparr>processedFacts := {fid}\<rparr>,
                [WidgetAction \<lparr>factId = fid, factText = spec_normalized ftext2\<rparr>]))"
    if c: "js_String (nullish (js_get (JObj params) (lit ''fact_id'')) (JStr [])) = Inr fid"
      "js_String (nullish (js_get (JObj params) (lit ''fact_text'')) (JStr [])) = Inr ftext"
      "js_String (nullish (js_get (JObj params2) (lit ''fact_id'')) (JStr [])) = Inr fid"
      "js_String (nullish (js_get (JObj params2) (lit ''fact_text'')) (JStr [])) = Inr ftext2"
  proof -
    have fresh: "fid \<notin> processedFacts (onThreadChange t)" for t
      by (simp add: onThreadChange_def)
    have seen: "fid = [] \<or> fid \<in> processedFacts (s\<lparr>processedFacts := insert fid (processedFacts s)\<rparr>)"
      by simp
    show ?thesis
      using record_fact_noop [OF c(1) c(2)] record_fact_noop [OF c(3) c(4) seen]
        record_fact_fresh [OF c(1) c(2)] record_fact_fresh [OF c(3) c(4) _ fresh]
      by (auto simp: onThreadChange_def)
  qed
  show ?thesis
    using main record_fact_raises [of params e s]
    by (simp add: onThreadChange_def)
qed

theorem record_fact_once_witness:
  "onClientTool (lit ''record_fact'')
     [(lit ''fact_id'', JStr (lit ''f2'')), (lit ''fact_text'', JStr (lit ''  sky   is blue ''))]
     ((initial_panel True)\<lparr>processedFacts := {lit ''f1''}\<rparr>)
   = (Inr True, (initial_panel True)\<lparr>processedFacts := {lit ''f2'', lit ''f1''}\<rparr>,
      [WidgetAction \<lparr>factId = lit ''f2'', factText = lit ''sky is blue''\<rparr>])
   \<and> onClientTool (lit ''record_fact'')
     [(lit ''fact_id'', JStr (lit ''f2'')), (lit ''fact_text'', JNull)]
     ((initial_panel True)\<lparr>processedFacts := {lit ''f2'', lit ''f1''}\<rparr>)
   = (Inr True, (initial_panel True)\<lparr>processedFacts := {lit ''f2'', lit ''f1''}\<rparr>, [])"
proof -
  let ?p = "[(lit ''fact_id'', JStr (lit ''f2'')), (lit ''fact_text'', JStr (lit ''  sky   is blue ''))]"
  let ?p2 = "[(lit ''fact_id'', JStr (lit ''f2'')), (lit ''fact_text'', JNull)]"
  let ?s = "(initial_panel True)\<lparr>processedFacts := {lit ''f1''}\<rparr>"
  have c: "js_String (nullish (js_get (JObj ?p) (lit ''fact_id'')) (JStr [])) = Inr (lit ''f2'')
      \<and> js_String (nullish (js_get (JObj ?p) (lit ''fact_text'')) (JStr []))
          = Inr (lit ''  sky   is blue '')
      \<and> js_String (nullish (js_get (JObj ?p2) (lit ''fact_id'')) (JStr [])) = Inr (lit ''f2'')
      \<and> js_String (nullish (js_get (JObj ?p2) (lit ''fact_text'')) (JStr [])) = Inr []"
    by (simp add: lit_def)
  have n: "spec_normalized (lit ''  sky   is blue '') = lit ''sky is blue''"
    by (simp add: spec_normalized_def lit_def is_space_def)
  have e: "lit ''f2'' \<noteq> [] \<and> lit ''f2'' \<notin> processedFacts ?s"
    by (simp add: lit_def)
  note once = record_fact_once [of ?p "lit ''f2''" "lit ''  sky   is blue ''" ?p2 "[]" ?s,
      THEN conjunct1, THEN mp, OF c, THEN conjunct2, THEN mp, OF e]
  show ?thesis
    using once unfolding n by simp
qed

section \<open>The survey: allergies and summary\<close>

lemma startsWith_iff: "startsWith k p = (\<exists>rest. k = p @ rest)"
  unfolding startsWith_def
  by (metis append_eq_conv_conj append_take_drop_id)

lemma strip_q4_prepend: "startsWith k (lit ''q4_'') \<Longrightarrow> lit ''q4_'' @ strip_q4 k = k"
  by (auto simp: strip_q4_def startsWith_iff)

lemma strip_q4_append: "strip_q4 (lit ''q4_'' @ opt) = opt"
  by (simp add: strip_q4_def startsWith_def)

lemma flagged_restore:
  "map (\<lambda>opt. lit ''q4_'' @ opt)
     (map (\<lambda>(k, v). strip_q4 k) (filter (\<lambda>(k, v). startsWith k (lit ''q4_'') \<and> truthy v) p))
   = map fst (filter (\<lambda>(k, v). startsWith k (lit ''q4_'') \<and> truthy v) p)"
  by (induction p) (auto simp: strip_q4_prepend)

lemma none_flagged:
  "(lit ''none'' \<in> set (map (\<lambda>(k, v). strip_q4 k)
       (filter (\<lambda>(k, v). startsWith k (lit ''q4_'') \<and> truthy v) p)))
   = (\<exists>v. (lit ''q4_'' @ lit ''none'', v) \<in> set p \<and> truthy v)"
proof
  assume "lit ''none'' \<in> set (map (\<lambda>(k, v). strip_q4 k)
       (filter (\<lambda>(k, v). startsWith k (lit ''q4_'') \<and> truthy v) p))"
  then obtain k v where kv: "(k, v) \<in> set p" "startsWith k (lit ''q4_'')" "truthy v"
      "strip_q4 k = lit ''none''"
    by auto
  then have "k = lit ''q4_'' @ lit ''none''"
    using strip_q4_prepend by metis
  then show "\<exists>v. (lit ''q4_'' @ lit ''none'', v) \<in> set p \<and> truthy v"
    using kv by auto
next
  assume "\<exists>v. (lit ''q4_'' @ lit ''none'', v) \<in> set p \<and> truthy v"
  then obtain v where "(lit ''q4_'' @ lit ''none'', v) \<in> set p" "truthy v"
    by auto
  then have "(lit ''q4_'' @ lit ''none'', v)
      \<in> set (filter (\<lambda>(k, v). startsWith k (lit ''q4_'') \<and> truthy v) p)"
    by (simp add: startsWith_def)
  then show "lit ''none'' \<in> set (map (\<lambda>(k, v). strip_q4 k)
       (filter (\<lambda>(k, v). startsWith k (lit ''q4_'') \<and> truthy v) p))"
    using strip_q4_append [of "lit ''none''"] by force
qed

lemma lit_append: "lit (a @ b) = lit a @ lit b"
  by (simp add: lit_def)


text \<open>
  C2. The allergy list of a survey payload: when a key \<open>q4_none\<close> has a truthy value,
  it is exactly \<open>["none"]\<close>; otherwise it is the keys that start with \<open>q4_\<close> and have
  a truthy value, in payload order, without the prefix (putting the prefix back gives
  those keys). With no truthy \<open>q4_\<close> key the list is empty, and the empty list is
  rendered as \<open>None\<close>. The two examples of the specification give \<open>["nuts", "pollen"]\<close>
  and \<open>["none"]\<close>.
\<close>

theorem allergies_normalization:
  "((\<exists>v. (lit ''q4_none'', v) \<in> set payload \<and> truthy v) \<longrightarrow> allergies_of payload = [lit ''none''])
   \<and> (\<not> (\<exists>v. (lit ''q4_none'', v) \<in> set payload \<and> truthy v) \<longrightarrow>
        map (\<lambda>opt. lit ''q4_'' @ opt) (allergies_of payload)
          = map fst (filter (\<lambda>(k, v). (\<exists>rest. k = lit ''q4_'' @ rest) \<and> truthy v) payload))
   \<and> ((\<forall>(k, v) \<in> set payload. (\<exists>rest. k = lit ''q4_'' @ rest) \<longrightarrow> \<not> truthy v)
        \<longrightarrow> allergies_of payload = [])
   \<and> list_text (map JStr []) = Inr (lit ''None'')
   \<and> allergies_of [(lit ''q4_nuts'', JBool True), (lit ''q4_pollen'', JBool True)]
        = [lit ''nuts'', lit ''pollen'']
   \<and> allergies_of [(lit ''q4_none'', JBool True), (lit ''q4_nuts'', JBool True)] = [lit ''none'']"
proof -
  let ?flagged = "filter (\<lambda>(k, v). startsWith k (lit ''q4_'') \<and> truthy v) payload"
  have n: "lit ''q4_none'' = lit ''q4_'' @ lit ''none''"
    using lit_append [of "''q4_''" "''none''"] by simp
  have a: "(\<exists>v. (lit ''q4_none'', v) \<in> set payload \<and> truthy v) \<Longrightarrow> allergies_of payload = [lit ''none'']"
    using none_flagged [of payload] by (simp add: allergies_of_def n)
  have b: "map (\<lambda>opt. lit ''q4_'' @ opt) (allergies_of payload) = map fst ?flagged"
    if "\<not> (\<exists>v. (lit ''q4_none'', v) \<in> set payload \<and> truthy v)"
  proof -
    have "\<not> (\<exists>v. (lit ''q4_'' @ lit ''none'', v) \<in> set payload \<and> truthy v)"
      using that unfolding n .
    then have nf: "lit ''none'' \<notin> set (map (\<lambda>(k, v). strip_q4 k) ?flagged)"
      unfolding none_flagged .
    have "allergies_of payload = map (\<lambda>(k, v). strip_q4 k) ?flagged"
      unfolding allergies_of_def Let_def by (rule if_not_P [OF nf])
    then show ?thesis
      using flagged_restore [of payload] by simp
  qed
  have c: "allergies_of payload = []"
    if "\<forall>(k, v) \<in> set payload. (\<exists>rest. k = lit ''q4_'' @ rest) \<longrightarrow> \<not> truthy v"
  proof -
    have "?flagged = []"
      using that by (auto simp: filter_empty_conv startsWith_iff)
    then show ?thesis
      by (simp add: allergies_of_def)
  qed
  have d: "list_text (map JStr []) = Inr (lit ''None'')"
    by (simp add: list_text_def)
  have e: "allergies_of [(lit ''q4_nuts'', JBool True), (lit ''q4_pollen'', JBool True)]
             = [lit ''nuts'', lit ''pollen'']"
    by (simp add: allergies_of_def strip_q4_def startsWith_def lit_def)
  have f: "allergies_of [(lit ''q4_none'', JBool True), (lit ''q4_nuts'', JBool True)] = [lit ''none'']"
    by (simp add: allergies_of_def strip_q4_def startsWith_def lit_def)
  show ?thesis
    using a b c d e f by (simp add: startsWith_iff)
qed

theorem allergies_normalization_witness:
  "map (\<lambda>opt. lit ''q4_'' @ opt)
     (allergies_of [(lit ''q4_nuts'', JBool True), (lit ''q1'', JStr (lit ''oily'')),
                    (lit ''q4_dust'', JBool False), (lit ''q4_pollen'', JNum (lit ''1''))])
   = [lit ''q4_nuts'', lit ''q4_pollen'']
   \<and> allergies_of [(lit ''q1'', JStr (lit ''oily'')), (lit ''q4_none'', JStr (lit ''on'')),
                   (lit ''q4_dust'', JBool True)] = [lit ''none'']"
  using allergies_normalization
     [of "[(lit ''q4_nuts'', JBool True), (lit ''q1'', JStr (lit ''oily'')),
           (lit ''q4_dust'', JBool False), (lit ''q4_pollen'', JNum (lit ''1''))]"]
    allergies_normalization
     [of "[(lit ''q1'', JStr (lit ''oily'')), (lit ''q4_none'', JStr (lit ''on'')),
           (lit ''q4_dust'', JBool True)]"]
  by (simp add: lit_def)





lemma pretty_other: "js_typeof v \<noteq> ''string'' \<Longrightarrow> pretty v = js_String v"
  by (simp add: pretty_def)










section \<open>The quiz answer\<close>








end
